theory Spec2Isabelle
  imports Main "HOL-Library.Word" "HOL-Library.AList"
begin

section \<open>The collaboration server (server/index.js)\<close>

text \<open>
  The server keeps two process-wide maps, \<open>rooms\<close> and \<open>userSessions\<close>, and reacts to
  socket.io events. Each handler runs to completion on the single JavaScript thread, so a
  handler is a function from the state before to the state after, together with the list
  of messages it emits. What a handler reads from outside the program (the clock,
  \<open>uuidv4()\<close>, \<open>Math.random()\<close>) is passed in as an environment record.
\<close>

subsection \<open>JavaScript strings and \<open>String.prototype.slice\<close>\<close>

text \<open>
  A JavaScript string is a sequence of 16-bit code units; \<open>length\<close> and \<open>slice\<close> count
  code units. \<open>js\<close> turns an ASCII literal of the source into such a sequence.
\<close>

type_synonym js_string = "16 word list"

definition js :: "string \<Rightarrow> js_string" where
  "js s = map of_char s"

text \<open>Template-literal rendering of a non-negative integer: its decimal digits.\<close>

fun show_nat :: "nat \<Rightarrow> js_string" where
  "show_nat n =
     (if n < 10 then [of_nat (48 + n)]
      else show_nat (n div 10) @ [of_nat (48 + n mod 10)])"

declare show_nat.simps [simp del]

text \<open>
  \<open>s.slice(start, end)\<close> for integer arguments: a negative index counts from the end of
  the string, an index beyond either end is cut off there, and an empty or inverted range
  gives the empty string. \<open>slice_from\<close> is the one-argument call \<open>s.slice(start)\<close>, where
  the end is the length.
\<close>

definition slice :: "'a list \<Rightarrow> int \<Rightarrow> int \<Rightarrow> 'a list" where
  "slice s start fin =
     (let len = int (length s);
          from = (if start < 0 then max (len + start) 0 else min start len);
          to = (if fin < 0 then max (len + fin) 0 else min fin len)
      in if from \<ge> to then [] else take (nat (to - from)) (drop (nat from) s))"

definition slice_from :: "'a list \<Rightarrow> int \<Rightarrow> 'a list" where
  "slice_from s start = slice s start (int (length s))"

subsection \<open>Data\<close>

text \<open>The environment of one handler run.\<close>

record env =
  clock :: nat  \<comment> \<open>\<open>Date.now()\<close> / \<open>new Date()\<close>, in milliseconds\<close>
  uuidv4 :: js_string  \<comment> \<open>the identifier \<open>uuidv4()\<close> returns\<close>
  random1000 :: nat  \<comment> \<open>the value of \<open>Math.floor(Math.random() * 1000)\<close>\<close>
  random360 :: nat  \<comment> \<open>the value of \<open>Math.floor(Math.random() * 360)\<close>\<close>

record cursor_pos =
  line :: int
  column :: int

record user =
  user_id :: js_string
  user_name :: js_string
  user_color :: js_string
  user_cursor :: cursor_pos
  joinedAt :: nat

record document =
  content :: js_string
  language :: js_string

text \<open>\<open>class DocumentOperation\<close>; the field \<open>type\<close> is \<open>'insert'\<close> or \<open>'delete'\<close>.\<close>

record DocumentOperation =
  op_type :: js_string
  position :: int
  op_content :: js_string
  op_length :: int
  op_id :: js_string
  timestamp :: nat

record chat_message =
  msg_id :: js_string
  msg_userId :: js_string
  msg_userName :: js_string
  msg_userColor :: js_string
  msg_content :: js_string
  msg_timestamp :: nat

text \<open>
  \<open>users\<close> is a JavaScript \<open>Map\<close>, which keeps insertion order: an association list with
  \<open>AList.update\<close> for \<open>set\<close> (overwrite in place, or append) and \<open>AList.delete\<close> for
  \<open>delete\<close>; \<open>size\<close> is its length.
\<close>

record room =
  room_id :: js_string
  room_name :: js_string
  document :: document
  users :: "(js_string \<times> user) list"
  operations :: "DocumentOperation list"
  chat :: "chat_message list"
  createdAt :: nat
  lastActivity :: nat

text \<open>
  A session holds the room id and the user object. In the source the session and the
  room's \<open>users\<close> map refer to the same user object; every handler that changes the user
  here writes both places.
\<close>

record session =
  roomId :: js_string
  user :: user

text \<open>The payloads the client sends (client/src/types/index.ts).\<close>

record join_data =
  j_roomId :: js_string
  j_userName :: js_string

record operation_data =
  d_type :: js_string
  d_position :: int
  d_content :: js_string
  d_length :: "int option"  \<comment> \<open>\<open>None\<close>: the field is missing\<close>

text \<open>What \<open>getRoomInfo\<close> returns.\<close>

record user_info =
  ui_id :: js_string
  ui_name :: js_string
  ui_color :: js_string
  ui_cursor :: cursor_pos

record room_info =
  ri_id :: js_string
  ri_name :: js_string
  userCount :: nat
  ri_users :: "user_info list"
  ri_document :: document
  ri_lastActivity :: nat

text \<open>The messages the server emits, one constructor per event name.\<close>

datatype message =
    RoomJoined "room_info option"
  | UserJoined user
  | UserLeft user
  | DocumentOperationMsg DocumentOperation js_string js_string
      \<comment> \<open>the operation, \<open>userId\<close>, \<open>userName\<close>\<close>
  | CursorPositionMsg js_string js_string js_string cursor_pos
      \<comment> \<open>\<open>userId\<close>, \<open>userName\<close>, \<open>color\<close>, \<open>cursor\<close>\<close>
  | LanguageChangeMsg js_string
  | ChatMessageMsg chat_message


text \<open>An emission: the connections the message is sent to, and the message.\<close>

type_synonym emission = "js_string set \<times> message"

text \<open>
  The state: the two maps of the source; what socket.io 4 keeps, namely the connected
  sockets of the namespace and the adapter's map from a room name to the ids of the
  sockets in that room; and the pending \<open>setTimeout\<close> callbacks (due time and the room id
  each captured). All timeouts have the same delay, so they expire in the order they
  were set.
\<close>

record state =
  rooms :: "js_string \<rightharpoonup> room"
  userSessions :: "js_string \<rightharpoonup> session"
  sockets :: "js_string set"
  adapter :: "js_string \<Rightarrow> js_string set"
  timers :: "(nat \<times> js_string) list"

definition init_state :: state where
  "init_state = \<lparr>rooms = Map.empty, userSessions = Map.empty, sockets = {},
                  adapter = (\<lambda>_. {}), timers = []\<rparr>"

subsection \<open>socket.io primitives\<close>

text \<open>
  A socket that connects is added to the namespace and joins the room named by its own
  id, before the \<open>connection\<close> callback of the source runs; the callback registers the
  handlers below and changes nothing.
\<close>

definition connection :: "js_string \<Rightarrow> state \<Rightarrow> state \<times> emission list" where
  "connection sid st =
     (st\<lparr>sockets := insert sid (sockets st),
         adapter := (adapter st)(sid := insert sid (adapter st sid))\<rparr>, [])"

text \<open>
  \<open>socket.emit\<close> sends to the socket itself. \<open>io.to(r).emit\<close> sends to every connected
  socket the adapter lists in room \<open>r\<close>. \<open>socket.to(r).emit\<close> is a broadcast to room \<open>r\<close>
  with the except-room \<open>socket.id\<close>: of the sockets in room \<open>r\<close>, those that are in the
  room named by the sender's id are left out. As long as the sender is the only socket
  in that room this is everyone in room \<open>r\<close> but the sender.
\<close>

definition socket_emit :: "js_string \<Rightarrow> message \<Rightarrow> emission" where
  "socket_emit sid m = ({sid}, m)"

definition socket_to :: "state \<Rightarrow> js_string \<Rightarrow> js_string \<Rightarrow> message \<Rightarrow> emission" where
  "socket_to st sid r m = ((adapter st r - adapter st sid) \<inter> sockets st, m)"

definition io_to :: "state \<Rightarrow> js_string \<Rightarrow> message \<Rightarrow> emission" where
  "io_to st r m = (adapter st r \<inter> sockets st, m)"

definition socket_join :: "js_string \<Rightarrow> js_string \<Rightarrow> state \<Rightarrow> state" where
  "socket_join sid r st = st\<lparr>adapter := (adapter st)(r := insert sid (adapter st r))\<rparr>"

definition socket_leave :: "js_string \<Rightarrow> js_string \<Rightarrow> state \<Rightarrow> state" where
  "socket_leave sid r st = st\<lparr>adapter := (adapter st)(r := adapter st r - {sid})\<rparr>"

text \<open>
  A disconnecting socket has left all its rooms, its own-id room too, and is removed
  from the namespace when the \<open>disconnect\<close> handler runs.
\<close>

definition socket_leave_all :: "js_string \<Rightarrow> state \<Rightarrow> state" where
  "socket_leave_all sid st =
     st\<lparr>sockets := sockets st - {sid}, adapter := (\<lambda>r. adapter st r - {sid})\<rparr>"

subsection \<open>Operations\<close>

text \<open>The constructor; \<open>length\<close> defaults to 0 when the argument is missing.\<close>

definition new_DocumentOperation ::
  "js_string \<Rightarrow> int \<Rightarrow> js_string \<Rightarrow> int option \<Rightarrow> env \<Rightarrow> DocumentOperation" where
  "new_DocumentOperation type pos cont len e =
     \<lparr>op_type = type, position = pos, op_content = cont,
      op_length = (case len of None \<Rightarrow> 0 | Some l \<Rightarrow> l),
      op_id = uuidv4 e, timestamp = clock e\<rparr>"










text \<open>The edit the \<open>document-operation\<close> handler makes to \<open>room.document.content\<close>.\<close>

definition apply_operation :: "js_string \<Rightarrow> DocumentOperation \<Rightarrow> js_string" where
  "apply_operation c operation =
     (if op_type operation = js ''insert'' then
        (let before = slice c 0 (position operation);
             after = slice_from c (position operation)
         in before @ op_content operation @ after)
      else if op_type operation = js ''delete'' then
        (let before = slice c 0 (position operation);
             after = slice_from c (position operation + op_length operation)
         in before @ after)
      else c)"

text \<open>
  The edit as the specification words it, for comparison: an insert splits the content
  at the position, cut off at the content length; a delete removes the units of the
  window \<open>[position, position + length)\<close>, cut off to \<open>[0, length content]\<close>.
\<close>

definition clamp :: "int \<Rightarrow> int \<Rightarrow> nat" where
  "clamp len i = nat (max 0 (min len i))"

definition spec_apply :: "js_string \<Rightarrow> DocumentOperation \<Rightarrow> js_string" where
  "spec_apply c operation =
     (let len = int (length c) in
      if op_type operation = js ''insert'' then
        (let k = clamp len (position operation)
         in take k c @ op_content operation @ drop k c)
      else if op_type operation = js ''delete'' then
        (let lo = clamp len (position operation);
             hi = clamp len (position operation + op_length operation)
         in take lo c @ drop (max lo hi) c)
      else c)"

subsection \<open>Room management\<close>

definition welcome_text :: js_string where
  "welcome_text = js ''// Welcome to the collaborative code editor!\<newline>// Start typing to begin...\<newline>''"

definition createRoom :: "js_string \<Rightarrow> js_string \<Rightarrow> env \<Rightarrow> state \<Rightarrow> room \<times> state" where
  "createRoom rid name e st =
     (let room = \<lparr>room_id = rid, room_name = name,
                  document = \<lparr>content = welcome_text, language = js ''javascript''\<rparr>,
                  users = [], operations = [], chat = [],
                  createdAt = clock e, lastActivity = clock e\<rparr>
      in (room, st\<lparr>rooms := (rooms st)(rid \<mapsto> room)\<rparr>))"

definition getRoomInfo :: "state \<Rightarrow> js_string \<Rightarrow> room_info option" where
  "getRoomInfo st rid =
     (case rooms st rid of
        None \<Rightarrow> None
      | Some room \<Rightarrow>
          Some \<lparr>ri_id = room_id room, ri_name = room_name room,
                userCount = length (users room),
                ri_users = map (\<lambda>(k, u). \<lparr>ui_id = user_id u, ui_name = user_name u,
                                          ui_color = user_color u, ui_cursor = user_cursor u\<rparr>)
                             (users room),
                ri_document = document room,
                ri_lastActivity = lastActivity room\<rparr>)"

subsection \<open>Event handlers\<close>

text \<open>\<open>join-room\<close>, first part: leave the previous room if the socket has a session.\<close>

definition leave_previous :: "js_string \<Rightarrow> state \<Rightarrow> state \<times> emission list" where
  "leave_previous sid st =
     (case userSessions st sid of
        None \<Rightarrow> (st, [])
      | Some prevSession \<Rightarrow>
          (let st1 = socket_leave sid (roomId prevSession) st in
           case rooms st1 (roomId prevSession) of
             None \<Rightarrow> (st1, [])
           | Some room \<Rightarrow>
               (let st2 = st1\<lparr>rooms := (rooms st1)(roomId prevSession \<mapsto>
                                 room\<lparr>users := AList.delete sid (users room)\<rparr>)\<rparr>
                in (st2, [socket_to st2 sid (roomId prevSession) (UserLeft (user prevSession))]))))"

text \<open>The user object \<open>join-room\<close> builds.\<close>

definition new_user :: "js_string \<Rightarrow> js_string \<Rightarrow> env \<Rightarrow> user" where
  "new_user sid userName e =
     \<lparr>user_id = sid,
      user_name = (if userName = [] then js ''User '' @ show_nat (random1000 e) else userName),
      user_color = js ''hsl('' @ show_nat (random360 e) @ js '', 70%, 60%)'',
      user_cursor = \<lparr>line = 0, column = 0\<rparr>,
      joinedAt = clock e\<rparr>"

definition join_room :: "js_string \<Rightarrow> join_data \<Rightarrow> env \<Rightarrow> state \<Rightarrow> state \<times> emission list" where
  "join_room sid data e st =
     (let rid = j_roomId data;
          (st1, out1) = leave_previous sid st;
          (room, st2) = (case rooms st1 rid of
                           None \<Rightarrow> createRoom rid (js ''Room '' @ slice rid 0 8) e st1
                         | Some r \<Rightarrow> (r, st1));
          u = new_user sid (j_userName data) e;
          room' = room\<lparr>users := AList.update sid u (users room), lastActivity := clock e\<rparr>;
          st3 = st2\<lparr>rooms := (rooms st2)(rid \<mapsto> room'),
                    userSessions := (userSessions st2)(sid \<mapsto> \<lparr>roomId = rid, user = u\<rparr>)\<rparr>;
          st4 = socket_join sid rid st3
      in (st4, out1 @ [socket_emit sid (RoomJoined (getRoomInfo st4 rid)),
                       socket_to st4 sid rid (UserJoined u)]))"

definition document_operation ::
  "js_string \<Rightarrow> operation_data \<Rightarrow> env \<Rightarrow> state \<Rightarrow> state \<times> emission list" where
  "document_operation sid data e st =
     (case userSessions st sid of
        None \<Rightarrow> (st, [])
      | Some session \<Rightarrow>
          (case rooms st (roomId session) of
             None \<Rightarrow> (st, [])
           | Some room \<Rightarrow>
               (let operation = new_DocumentOperation (d_type data) (d_position data)
                                  (d_content data) (d_length data) e;
                    doc = (document room)\<lparr>content :=
                             apply_operation (content (document room)) operation\<rparr>;
                    room' = room\<lparr>document := doc,
                                 operations := operations room @ [operation],
                                 lastActivity := clock e\<rparr>
                in (st\<lparr>rooms := (rooms st)(roomId session \<mapsto> room')\<rparr>,
                    [socket_to st sid (roomId session)
                       (DocumentOperationMsg operation sid (user_name (user session)))]))))"

definition cursor_position ::
  "js_string \<Rightarrow> cursor_pos \<Rightarrow> state \<Rightarrow> state \<times> emission list" where
  "cursor_position sid cur st =
     (case userSessions st sid of
        None \<Rightarrow> (st, [])
      | Some session \<Rightarrow>
          (case rooms st (roomId session) of
             None \<Rightarrow> (st, [])
           | Some room \<Rightarrow>
               (let u = (user session)\<lparr>user_cursor := cur\<rparr>;
                    room' = room\<lparr>users := AList.update sid u (users room)\<rparr>
                in (st\<lparr>rooms := (rooms st)(roomId session \<mapsto> room'),
                       userSessions := (userSessions st)(sid \<mapsto> session\<lparr>user := u\<rparr>)\<rparr>,
                    [socket_to st sid (roomId session)
                       (CursorPositionMsg sid (user_name u) (user_color u) cur)]))))"

definition language_change ::
  "js_string \<Rightarrow> js_string \<Rightarrow> env \<Rightarrow> state \<Rightarrow> state \<times> emission list" where
  "language_change sid lang e st =
     (case userSessions st sid of
        None \<Rightarrow> (st, [])
      | Some session \<Rightarrow>
          (case rooms st (roomId session) of
             None \<Rightarrow> (st, [])
           | Some room \<Rightarrow>
               (let room' = room\<lparr>document := (document room)\<lparr>language := lang\<rparr>,
                                 lastActivity := clock e\<rparr>
                in (st\<lparr>rooms := (rooms st)(roomId session \<mapsto> room')\<rparr>,
                    [io_to st (roomId session) (LanguageChangeMsg lang)]))))"

definition chat_message_ev ::
  "js_string \<Rightarrow> js_string \<Rightarrow> env \<Rightarrow> state \<Rightarrow> state \<times> emission list" where
  "chat_message_ev sid text e st =
     (case userSessions st sid of
        None \<Rightarrow> (st, [])
      | Some session \<Rightarrow>
          (case rooms st (roomId session) of
             None \<Rightarrow> (st, [])
           | Some room \<Rightarrow>
               (let message = \<lparr>msg_id = uuidv4 e, msg_userId = sid,
                               msg_userName = user_name (user session),
                               msg_userColor = user_color (user session),
                               msg_content = text, msg_timestamp = clock e\<rparr>;
                    room' = room\<lparr>chat := chat room @ [message], lastActivity := clock e\<rparr>
                in (st\<lparr>rooms := (rooms st)(roomId session \<mapsto> room')\<rparr>,
                    [io_to st (roomId session) (ChatMessageMsg message)]))))"

text \<open>
  \<open>disconnect\<close>: when the room is left empty, the cleanup callback is queued for one hour
  later.
\<close>

definition disconnect :: "js_string \<Rightarrow> env \<Rightarrow> state \<Rightarrow> state \<times> emission list" where
  "disconnect sid e st0 =
     (let st = socket_leave_all sid st0 in
      case userSessions st sid of
        None \<Rightarrow> (st, [])
      | Some session \<Rightarrow>
          (let (st3, out) =
                 (case rooms st (roomId session) of
                    None \<Rightarrow> (st, [])
                  | Some room \<Rightarrow>
                      (let room' = room\<lparr>users := AList.delete sid (users room),
                                       lastActivity := clock e\<rparr>;
                           st1 = st\<lparr>rooms := (rooms st)(roomId session \<mapsto> room')\<rparr>;
                           st2 = (if length (users room') = 0
                                  then st1\<lparr>timers := timers st1 @
                                             [(clock e + 3600000, roomId session)]\<rparr>
                                  else st1)
                       in (st2, [socket_to st1 sid (roomId session) (UserLeft (user session))])))
           in (st3\<lparr>userSessions := (userSessions st3)(sid := None)\<rparr>, out)))"

text \<open>The callback given to \<open>setTimeout\<close>, for the room id it captured.\<close>

definition cleanup :: "js_string \<Rightarrow> state \<Rightarrow> state" where
  "cleanup rid st =
     (case rooms st rid of
        None \<Rightarrow> st
      | Some room \<Rightarrow>
          if length (users room) = 0 then st\<lparr>rooms := (rooms st)(rid := None)\<rparr> else st)"

text \<open>The oldest pending timeout expires, once its time has come.\<close>

definition timer_fire :: "env \<Rightarrow> state \<Rightarrow> state \<times> emission list" where
  "timer_fire e st =
     (case timers st of
        [] \<Rightarrow> (st, [])
      | (due, rid) # rest \<Rightarrow>
          if due \<le> clock e then (cleanup rid (st\<lparr>timers := rest\<rparr>), []) else (st, []))"

subsection \<open>Runs of the server\<close>

datatype event =
    Connect js_string
  | JoinRoom js_string join_data
  | DocumentOperationEv js_string operation_data
  | CursorPositionEv js_string cursor_pos
  | LanguageChangeEv js_string js_string
  | ChatMessageEv js_string js_string
  | Disconnect js_string
  | CleanupTimeout

fun step :: "event \<Rightarrow> env \<Rightarrow> state \<Rightarrow> state \<times> emission list" where
  "step (Connect sid) e st = connection sid st"
| "step (JoinRoom sid data) e st = join_room sid data e st"
| "step (DocumentOperationEv sid data) e st = document_operation sid data e st"
| "step (CursorPositionEv sid cur) e st = cursor_position sid cur st"
| "step (LanguageChangeEv sid lang) e st = language_change sid lang e st"
| "step (ChatMessageEv sid text) e st = chat_message_ev sid text e st"
| "step (Disconnect sid) e st = disconnect sid e st"
| "step CleanupTimeout e st = timer_fire e st"

text \<open>
  The states the server gets into by any sequence of events, from any connection ids and
  in any environments.
\<close>

inductive reachable :: "state \<Rightarrow> bool" where
  reachable_init: "reachable init_state"
| reachable_step: "reachable st \<Longrightarrow> reachable (fst (step ev e st))"



text \<open>A run from a given state, for a list of events with their environments.\<close>

fun run :: "(event \<times> env) list \<Rightarrow> state \<Rightarrow> state" where
  "run [] st = st"
| "run ((ev, e) # evs) st = run evs (fst (step ev e st))"


text \<open>The keys of a room's \<open>users\<close> map, empty when the room does not exist.\<close>

definition room_members :: "state \<Rightarrow> js_string \<Rightarrow> js_string set" where
  "room_members st rid = (case rooms st rid of None \<Rightarrow> {} | Some room \<Rightarrow> fst ` set (users room))"

text \<open>The room a connection's session names, if it has a session.\<close>

definition session_room :: "state \<Rightarrow> js_string \<Rightarrow> js_string option" where
  "session_room st sid = map_option roomId (userSessions st sid)"


text \<open>
  Sessions and rooms agree: a session's room exists and lists the connection, and a
  connection listed in a room has a session for that room.
\<close>

definition consistent :: "state \<Rightarrow> bool" where
  "consistent st \<longleftrightarrow>
     (\<forall>sid s. userSessions st sid = Some s \<longrightarrow>
        (\<exists>room. rooms st (roomId s) = Some room \<and> sid \<in> fst ` set (users room))) \<and>
     (\<forall>rid room sid. rooms st rid = Some room \<and> sid \<in> fst ` set (users room) \<longrightarrow>
        (\<exists>s. userSessions st sid = Some s \<and> roomId s = rid))"

text \<open>Every connection listed in a room is in the socket.io room of that name.\<close>

definition joined :: "state \<Rightarrow> bool" where
  "joined st \<longleftrightarrow> (\<forall>rid. room_members st rid \<subseteq> adapter st rid)"




text \<open>Both invariants of a run together.\<close>

definition invariant :: "state \<Rightarrow> bool" where
  "invariant st \<longleftrightarrow> consistent st \<and> joined st"

text \<open>The display color of the user a connection's session holds.\<close>

definition session_color :: "state \<Rightarrow> js_string \<Rightarrow> js_string option" where
  "session_color st sid = map_option (user_color \<circ> user) (userSessions st sid)"

subsection \<open>Example runs\<close>

definition env_at :: "nat \<Rightarrow> env" where
  "env_at t = \<lparr>clock = t, uuidv4 = js ''id'', random1000 = 7, random360 = 120\<rparr>"

definition join_ev :: "string \<Rightarrow> string \<Rightarrow> string \<Rightarrow> event" where
  "join_ev sid rid name = JoinRoom (js sid) \<lparr>j_roomId = js rid, j_userName = js name\<rparr>"

text \<open>Alice and Bob, on connections \<open>sA\<close> and \<open>sB\<close>, have joined room \<open>r1\<close>.\<close>

definition two_users :: state where
  "two_users = run [(Connect (js ''sA''), env_at 0),
                    (Connect (js ''sB''), env_at 0),
                    (join_ev ''sA'' ''r1'' ''Alice'', env_at 0),
                    (join_ev ''sB'' ''r1'' ''Bob'', env_at 1000)] init_state"

text \<open>Alice alone in room \<open>r1\<close>.\<close>

definition alone :: state where
  "alone = run [(Connect (js ''sA''), env_at 0),
                (join_ev ''sA'' ''r1'' ''Alice'', env_at 0)] init_state"

text \<open>
  Alice joins room \<open>r1\<close> and disconnects after one second. Bob joins the room a second
  later, types \<open>WORK\<close>, and disconnects half a second before Alice's hour is over.
\<close>

definition rejoin_run :: "(event \<times> env) list" where
  "rejoin_run = [(Connect (js ''sA''), env_at 0),
                 (join_ev ''sA'' ''r1'' ''Alice'', env_at 0),
                 (Disconnect (js ''sA''), env_at 1000),
                 (Connect (js ''sB''), env_at 2000),
                 (join_ev ''sB'' ''r1'' ''Bob'', env_at 2000),
                 (DocumentOperationEv (js ''sB'')
                    \<lparr>d_type = js ''insert'', d_position = 0, d_content = js ''WORK'',
                     d_length = Some 0\<rparr>, env_at 3000),
                 (Disconnect (js ''sB''), env_at 3600500)]"



section \<open>Properties\<close>

subsection \<open>Applying an operation\<close>


lemma slice_prefix: "0 \<le> p \<Longrightarrow> slice c 0 p = take (nat p) c"
  by (auto simp: slice_def Let_def min_def)

lemma slice_from_nonneg: "0 \<le> p \<Longrightarrow> slice_from c p = drop (nat p) c"
  by (auto simp: slice_from_def slice_def Let_def min_def)

lemma take_clamp: "0 \<le> p \<Longrightarrow> take (clamp (int (length c)) p) c = take (nat p) c"
  by (auto simp: clamp_def min_def max_def)

lemma drop_clamp: "0 \<le> p \<Longrightarrow> drop (clamp (int (length c)) p) c = drop (nat p) c"
  by (auto simp: clamp_def min_def max_def)

lemma clamp_mono: "p \<le> q \<Longrightarrow> clamp n p \<le> clamp n q"
  by (auto simp: clamp_def min_def max_def)

text \<open>
  C1, as the code has it: for an operation whose position and length are not negative,
  the handler's edit is the clamped edit of the specification. An insert splits the
  content at the position, cut off at the content length, and a delete removes the units
  from the position up to position + length, cut off at the content length; nothing
  fails for a position past the end.
\<close>

theorem apply_operation_nonneg:
  assumes "0 \<le> position operation" and "0 \<le> op_length operation"
  shows "apply_operation c operation = spec_apply c operation"
proof -
  let ?p = "position operation" and ?q = "position operation + op_length operation"
  have q: "0 \<le> ?q"
    using assms by simp
  have le: "clamp (int (length c)) ?p \<le> clamp (int (length c)) ?q"
    using assms by (intro clamp_mono) simp
  note code = slice_prefix [OF assms(1)] slice_from_nonneg [OF assms(1)] slice_from_nonneg [OF q]
  note spec = take_clamp [OF assms(1)] drop_clamp [OF assms(1)] drop_clamp [OF q]
  show ?thesis
    using le by (simp add: apply_operation_def spec_apply_def Let_def code spec max_absorb2)
qed

text \<open>
  C1, an instance: deleting five units at position 2 of \<open>abc\<close> removes the one unit that is
  there and leaves \<open>ab\<close>.
\<close>

theorem apply_operation_nonneg_witness:
  "(0::int) \<le> 2 \<and> (0::int) \<le> 5 \<and>
   apply_operation (js ''abc'')
     \<lparr>op_type = js ''delete'', position = 2, op_content = [], op_length = 5,
      op_id = [], timestamp = 0\<rparr> = js ''ab''"
  using apply_operation_nonneg
    [of "\<lparr>op_type = js ''delete'', position = 2, op_content = [], op_length = 5,
          op_id = [], timestamp = 0\<rparr>" "js ''abc''"]
  by (simp add: spec_apply_def clamp_def js_def)

text \<open>
  C1 as stated fails for a negative position: \<open>slice\<close> counts a negative index from the
  end of the string. Deleting one unit at position -1 of \<open>abc\<close> gives \<open>ababc\<close>, where the
  window cut off to the content would remove nothing.
\<close>

theorem apply_operation_negative_counterexample:
  "apply_operation (js ''abc'')
     \<lparr>op_type = js ''delete'', position = - 1, op_content = [], op_length = 1,
      op_id = [], timestamp = 0\<rparr> = js ''ababc'' \<and>
   spec_apply (js ''abc'')
     \<lparr>op_type = js ''delete'', position = - 1, op_content = [], op_length = 1,
      op_id = [], timestamp = 0\<rparr> = js ''abc'' \<and>
   apply_operation (js ''abc'')
     \<lparr>op_type = js ''delete'', position = - 1, op_content = [], op_length = 1,
      op_id = [], timestamp = 0\<rparr> \<noteq>
   spec_apply (js ''abc'')
     \<lparr>op_type = js ''delete'', position = - 1, op_content = [], op_length = 1,
      op_id = [], timestamp = 0\<rparr>"
  by (simp add: apply_operation_def spec_apply_def clamp_def slice_def slice_from_def js_def)

subsection \<open>The transform function\<close>





subsection \<open>Sessions, rooms and socket.io rooms stay consistent\<close>

lemma keys_delete: "fst ` set (AList.delete k al) = fst ` set al - {k}"
  by (auto simp: AList.delete_eq)

lemma session_room_Some:
  "session_room st sid = Some rid \<longleftrightarrow> (\<exists>s. userSessions st sid = Some s \<and> roomId s = rid)"
  by (cases "userSessions st sid") (auto simp: session_room_def)

lemma room_members_iff:
  "sid \<in> room_members st rid \<longleftrightarrow>
     (\<exists>room. rooms st rid = Some room \<and> sid \<in> fst ` set (users room))"
  by (cases "rooms st rid") (simp_all add: room_members_def)

lemma consistent_iff:
  "consistent st \<longleftrightarrow>
     (\<forall>sid rid. session_room st sid = Some rid \<longleftrightarrow> sid \<in> room_members st rid)"
proof
  assume c: "consistent st"
  show "\<forall>sid rid. session_room st sid = Some rid \<longleftrightarrow> sid \<in> room_members st rid"
  proof (intro allI iffI)
    fix sid rid
    assume "session_room st sid = Some rid"
    then obtain s where "userSessions st sid = Some s" "roomId s = rid"
      by (auto simp: session_room_Some)
    with c show "sid \<in> room_members st rid"
      unfolding consistent_def room_members_iff by blast
  next
    fix sid rid
    assume "sid \<in> room_members st rid"
    then obtain room where "rooms st rid = Some room" "sid \<in> fst ` set (users room)"
      by (auto simp: room_members_iff)
    with c show "session_room st sid = Some rid"
      unfolding consistent_def session_room_Some by blast
  qed
next
  assume r: "\<forall>sid rid. session_room st sid = Some rid \<longleftrightarrow> sid \<in> room_members st rid"
  show "consistent st"
    unfolding consistent_def
  proof (intro conjI allI impI)
    fix sid s
    assume "userSessions st sid = Some s"
    then have "session_room st sid = Some (roomId s)"
      by (simp add: session_room_def)
    with r have "sid \<in> room_members st (roomId s)"
      by simp
    then show "\<exists>room. rooms st (roomId s) = Some room \<and> sid \<in> fst ` set (users room)"
      by (simp add: room_members_iff)
  next
    fix rid room sid
    assume "rooms st rid = Some room \<and> sid \<in> fst ` set (users room)"
    then have "sid \<in> room_members st rid"
      unfolding room_members_iff by blast
    with r have "session_room st sid = Some rid"
      by simp
    then show "\<exists>s. userSessions st sid = Some s \<and> roomId s = rid"
      by (simp add: session_room_Some)
  qed
qed

lemma leave_previous_sessions: "userSessions (fst (leave_previous sid st)) = userSessions st"
  by (simp add: leave_previous_def socket_leave_def Let_def split: option.splits)

lemma leave_previous_members:
  "room_members (fst (leave_previous sid st)) r =
     (if session_room st sid = Some r then room_members st r - {sid} else room_members st r)"
  by (auto simp: leave_previous_def socket_leave_def Let_def room_members_def session_room_def
      keys_delete split: option.splits)

lemma leave_previous_adapter:
  "adapter (fst (leave_previous sid st)) r =
     (if session_room st sid = Some r then adapter st r - {sid} else adapter st r)"
  by (auto simp: leave_previous_def socket_leave_def Let_def session_room_def
      split: option.splits)

text \<open>The state after join-room, in terms of the state after leaving the previous room.\<close>

lemma join_room_state:
  "fst (join_room sid data e st) =
     (let st1 = fst (leave_previous sid st);
          rid = j_roomId data;
          u = new_user sid (j_userName data) e;
          room = (case rooms st1 rid of
                    None \<Rightarrow> fst (createRoom rid (js ''Room '' @ slice rid 0 8) e st1)
                  | Some r \<Rightarrow> r)
      in st1\<lparr>rooms := (rooms st1)(rid \<mapsto>
                 room\<lparr>users := AList.update sid u (users room), lastActivity := clock e\<rparr>),
              userSessions := (userSessions st1)(sid \<mapsto> \<lparr>roomId = rid, user = u\<rparr>),
              adapter := (adapter st1)(rid := insert sid (adapter st1 rid))\<rparr>)"
  by (simp add: join_room_def createRoom_def socket_join_def Let_def case_prod_beta
      split: option.splits)

lemma join_room_sessions:
  "userSessions (fst (join_room sid data e st)) =
     (userSessions st)(sid \<mapsto> \<lparr>roomId = j_roomId data, user = new_user sid (j_userName data) e\<rparr>)"
  by (simp add: join_room_state Let_def leave_previous_sessions)

lemma join_room_members:
  "room_members (fst (join_room sid data e st)) r =
     (if r = j_roomId data then insert sid (room_members st r)
      else if session_room st sid = Some r then room_members st r - {sid}
      else room_members st r)"
proof -
  have "room_members (fst (join_room sid data e st)) r =
          (if r = j_roomId data then insert sid (room_members (fst (leave_previous sid st)) r)
           else room_members (fst (leave_previous sid st)) r)"
    by (auto simp: join_room_state Let_def room_members_def createRoom_def dom_update
        split: option.splits)
  then show ?thesis
    by (auto simp: leave_previous_members)
qed

lemma join_room_adapter:
  "adapter (fst (join_room sid data e st)) r =
     (if r = j_roomId data then insert sid (adapter st r)
      else if session_room st sid = Some r then adapter st r - {sid}
      else adapter st r)"
  by (auto simp: join_room_state Let_def leave_previous_adapter)


lemma disconnect_sessions:
  "userSessions (fst (disconnect sid e st)) = (userSessions st)(sid := None)"
  by (auto simp: disconnect_def socket_leave_all_def Let_def case_prod_beta
      split: option.splits)

lemma disconnect_rooms:
  "rooms (fst (disconnect sid e st)) =
     (case userSessions st sid of
        None \<Rightarrow> rooms st
      | Some s \<Rightarrow>
          (case rooms st (roomId s) of
             None \<Rightarrow> rooms st
           | Some room \<Rightarrow>
               (rooms st)(roomId s \<mapsto>
                  room\<lparr>users := AList.delete sid (users room), lastActivity := clock e\<rparr>)))"
  by (simp add: disconnect_def socket_leave_all_def Let_def case_prod_beta
      split: option.splits)

lemma disconnect_members:
  "room_members (fst (disconnect sid e st)) r =
     (if session_room st sid = Some r then room_members st r - {sid} else room_members st r)"
  by (auto simp: disconnect_rooms room_members_def session_room_def keys_delete
      split: option.splits)

lemma disconnect_adapter: "adapter (fst (disconnect sid e st)) r = adapter st r - {sid}"
  by (auto simp: disconnect_def socket_leave_all_def Let_def case_prod_beta
      split: option.splits)

lemma connection_frame:
  "session_room (fst (connection sid st)) = session_room st"
  "room_members (fst (connection sid st)) = room_members st"
  "adapter st r \<subseteq> adapter (fst (connection sid st)) r"
  by (auto simp: connection_def session_room_def room_members_def fun_eq_iff)

lemma document_operation_frame:
  "session_room (fst (document_operation sid data e st)) = session_room st"
  "room_members (fst (document_operation sid data e st)) = room_members st"
  "adapter (fst (document_operation sid data e st)) = adapter st"
  by (auto simp: document_operation_def Let_def session_room_def room_members_def fun_eq_iff
      split: option.splits)

lemma language_change_frame:
  "session_room (fst (language_change sid lang e st)) = session_room st"
  "room_members (fst (language_change sid lang e st)) = room_members st"
  "adapter (fst (language_change sid lang e st)) = adapter st"
  by (auto simp: language_change_def Let_def session_room_def room_members_def fun_eq_iff
      split: option.splits)

lemma chat_message_frame:
  "session_room (fst (chat_message_ev sid text e st)) = session_room st"
  "room_members (fst (chat_message_ev sid text e st)) = room_members st"
  "adapter (fst (chat_message_ev sid text e st)) = adapter st"
  by (auto simp: chat_message_ev_def Let_def session_room_def room_members_def fun_eq_iff
      split: option.splits)

lemma timer_fire_frame:
  "session_room (fst (timer_fire e st)) = session_room st"
  "room_members (fst (timer_fire e st)) = room_members st"
  "adapter (fst (timer_fire e st)) = adapter st"
  by (auto simp: timer_fire_def cleanup_def Let_def session_room_def room_members_def fun_eq_iff
      split: option.splits list.splits)

lemma cursor_position_frame:
  "session_room (fst (cursor_position sid cur st)) = session_room st"
  "adapter (fst (cursor_position sid cur st)) = adapter st"
  by (auto simp: cursor_position_def Let_def session_room_def fun_eq_iff
      split: option.splits)

lemma cursor_position_members:
  "room_members (fst (cursor_position sid cur st)) r =
     (if session_room st sid = Some r \<and> rooms st r \<noteq> None
      then insert sid (room_members st r) else room_members st r)"
  by (auto simp: cursor_position_def Let_def session_room_def room_members_def dom_update
      split: option.splits)

lemma invariant_iff:
  "invariant st \<longleftrightarrow>
     (\<forall>sid rid. session_room st sid = Some rid \<longleftrightarrow> sid \<in> room_members st rid) \<and>
     (\<forall>rid. room_members st rid \<subseteq> adapter st rid)"
  by (simp add: invariant_def consistent_iff joined_def)

lemma invariant_frame:
  assumes "invariant st" and "session_room st' = session_room st"
    and "room_members st' = room_members st" and "adapter st' = adapter st"
  shows "invariant st'"
  using assms by (simp add: invariant_iff)

lemma invariant_connection:
  assumes "invariant st"
  shows "invariant (fst (connection sid st))"
  using assms connection_frame(3) [of st _ sid]
  unfolding invariant_iff connection_frame(1,2) by blast

lemma invariant_init: "invariant init_state"
  by (simp add: invariant_iff init_state_def session_room_def room_members_def)

lemma invariant_join_room:
  assumes "invariant st"
  shows "invariant (fst (join_room sid data e st))"
  using assms unfolding invariant_iff join_room_members join_room_adapter
  by (auto simp: session_room_def join_room_sessions)

lemma invariant_disconnect:
  assumes "invariant st"
  shows "invariant (fst (disconnect sid e st))"
  using assms unfolding invariant_iff disconnect_members disconnect_adapter
  by (auto simp: session_room_def disconnect_sessions)

lemma invariant_cursor_position:
  assumes "invariant st"
  shows "invariant (fst (cursor_position sid cur st))"
  using assms unfolding invariant_iff cursor_position_members cursor_position_frame
  by auto

lemma invariant_step:
  assumes "invariant st"
  shows "invariant (fst (step ev e st))"
proof (cases ev)
  case (Connect sid)
  then show ?thesis using assms by (simp add: invariant_connection)
next
  case (JoinRoom sid data)
  then show ?thesis using assms by (simp add: invariant_join_room)
next
  case (DocumentOperationEv sid data)
  then show ?thesis using assms by (simp add: invariant_frame document_operation_frame)
next
  case (CursorPositionEv sid cur)
  then show ?thesis using assms by (simp add: invariant_cursor_position)
next
  case (LanguageChangeEv sid lang)
  then show ?thesis using assms by (simp add: invariant_frame language_change_frame)
next
  case (ChatMessageEv sid msg)
  then show ?thesis using assms by (simp add: invariant_frame chat_message_frame)
next
  case (Disconnect sid)
  then show ?thesis using assms by (simp add: invariant_disconnect)
next
  case CleanupTimeout
  then show ?thesis using assms by (simp add: invariant_frame timer_fire_frame)
qed

lemma reachable_invariant: "reachable st \<Longrightarrow> invariant st"
  by (induction rule: reachable.induct) (simp_all add: invariant_init invariant_step)

lemma reachable_run: "reachable st \<Longrightarrow> reachable (run evs st)"
proof (induction evs arbitrary: st)
  case Nil
  then show ?case by simp
next
  case (Cons a evs)
  obtain ev e where a: "a = (ev, e)"
    by (cases a)
  have "reachable (fst (step ev e st))"
    using Cons.prems by (rule reachable_step)
  then show ?case
    unfolding a by (simp add: Cons.IH)
qed

lemma reachable_two_users: "reachable two_users"
  unfolding two_users_def by (rule reachable_run [OF reachable_init])

text \<open>
  C10: in every state reachable from the empty initial state by join-room,
  document-operation, cursor-position, language-change, chat-message, disconnect and
  cleanup-timer events, every session names a room that exists and lists the session's
  connection among its users, and every connection listed among a room's users has a
  session naming that room.
\<close>

theorem sessions_rooms_consistent: "reachable st \<Longrightarrow> consistent st"
  using reachable_invariant by (simp add: invariant_def)

text \<open>C10, an instance: the state after Alice and Bob have joined room \<open>r1\<close>.\<close>

theorem sessions_rooms_consistent_witness:
  "reachable two_users \<and> consistent two_users \<and> userSessions two_users (js ''sB'') \<noteq> None"
proof -
  have "userSessions two_users (js ''sB'') \<noteq> None"
    by (simp add: two_users_def join_ev_def join_room_sessions)
  with reachable_two_users sessions_rooms_consistent [OF reachable_two_users] show ?thesis
    by simp
qed

subsection \<open>Who receives a broadcast\<close>

lemmas handler_defs = connection_def join_room_def leave_previous_def createRoom_def
  new_user_def document_operation_def cursor_position_def language_change_def
  chat_message_ev_def disconnect_def timer_fire_def cleanup_def socket_join_def
  socket_leave_def socket_leave_all_def socket_to_def socket_emit_def io_to_def
  init_state_def env_at_def join_ev_def









































subsection \<open>Joining creates a room once\<close>

lemma leave_previous_rooms:
  "rooms (fst (leave_previous sid st)) r =
     (if session_room st sid = Some r
      then map_option (\<lambda>room. room\<lparr>users := AList.delete sid (users room)\<rparr>) (rooms st r)
      else rooms st r)"
  by (auto simp: leave_previous_def socket_leave_def Let_def session_room_def
      split: option.splits)

lemma leave_previous_dom: "dom (rooms (fst (leave_previous sid st))) = dom (rooms st)"
  by (auto simp: leave_previous_rooms dom_def split: if_splits)

text \<open>
  C3: a join-room for an id that is not in the directory adds exactly that id to the
  directory, with a room whose document is the welcome text in the default language and
  whose chat is empty; a join-room for an id that is in the directory leaves the set of
  room ids as it is and keeps the room's document and chat. The directory is a map from
  ids to rooms, so an id never has two rooms.
\<close>

theorem join_room_creates_once:
  "(rooms st (j_roomId jd) = None \<longrightarrow>
      dom (rooms (fst (join_room sid jd e st))) = insert (j_roomId jd) (dom (rooms st)) \<and>
      (\<exists>room. rooms (fst (join_room sid jd e st)) (j_roomId jd) = Some room \<and>
         room_id room = j_roomId jd \<and>
         document room = \<lparr>content = welcome_text, language = js ''javascript''\<rparr> \<and>
         chat room = [])) \<and>
   (\<forall>room. rooms st (j_roomId jd) = Some room \<longrightarrow>
      dom (rooms (fst (join_room sid jd e st))) = dom (rooms st) \<and>
      (\<exists>room'. rooms (fst (join_room sid jd e st)) (j_roomId jd) = Some room' \<and>
         document room' = document room \<and> chat room' = chat room))"
proof -
  let ?st1 = "fst (leave_previous sid st)"
  have d: "dom (rooms ?st1) = dom (rooms st)"
    by (rule leave_previous_dom)
  have absent: "rooms st (j_roomId jd) = None \<Longrightarrow> rooms ?st1 (j_roomId jd) = None"
    by (simp add: leave_previous_rooms)
  have present: "rooms st (j_roomId jd) = Some room \<Longrightarrow>
      \<exists>r. rooms ?st1 (j_roomId jd) = Some r \<and> document r = document room \<and> chat r = chat room"
    for room
    by (simp add: leave_previous_rooms)
  show ?thesis
  proof (intro conjI allI impI)
    assume a: "rooms st (j_roomId jd) = None"
    show "dom (rooms (fst (join_room sid jd e st))) = insert (j_roomId jd) (dom (rooms st))"
      using d by (simp add: join_room_state Let_def)
    show "\<exists>room. rooms (fst (join_room sid jd e st)) (j_roomId jd) = Some room \<and>
         room_id room = j_roomId jd \<and>
         document room = \<lparr>content = welcome_text, language = js ''javascript''\<rparr> \<and>
         chat room = []"
      using absent [OF a] by (simp add: join_room_state Let_def createRoom_def)
  next
    fix room
    assume p: "rooms st (j_roomId jd) = Some room"
    then have "j_roomId jd \<in> dom (rooms st)"
      by auto
    then show "dom (rooms (fst (join_room sid jd e st))) = dom (rooms st)"
      using d by (auto simp: join_room_state Let_def)
    from present [OF p] show "\<exists>room'. rooms (fst (join_room sid jd e st)) (j_roomId jd) = Some room' \<and>
         document room' = document room \<and> chat room' = chat room"
      by (auto simp: join_room_state Let_def)
  qed
qed

text \<open>
  C3, an instance: Alice's join creates room \<open>r1\<close> in the empty directory, and after Bob's
  join of the same room its document is still the welcome text.
\<close>

theorem join_room_creates_once_witness:
  "rooms (run [(Connect (js ''sA''), env_at 0), (Connect (js ''sB''), env_at 0)] init_state)
     (js ''r1'') = None \<and>
   dom (rooms (run [(Connect (js ''sA''), env_at 0), (Connect (js ''sB''), env_at 0),
                    (join_ev ''sA'' ''r1'' ''Alice'', env_at 0)] init_state)) = {js ''r1''} \<and>
   (\<exists>room. rooms two_users (js ''r1'') = Some room \<and>
      document room = \<lparr>content = welcome_text, language = js ''javascript''\<rparr>)"
proof -
  let ?jd = "\<lparr>j_roomId = js ''r1'', j_userName = js ''Alice''\<rparr>"
  let ?jd' = "\<lparr>j_roomId = js ''r1'', j_userName = js ''Bob''\<rparr>"
  let ?c = "run [(Connect (js ''sA''), env_at 0), (Connect (js ''sB''), env_at 0)] init_state"
  let ?st = "fst (join_room (js ''sA'') ?jd (env_at 0) ?c)"
  have a: "rooms ?c (js ''r1'') = None" and d: "dom (rooms ?c) = {}"
    by (simp_all add: init_state_def connection_def)
  have t: "two_users = fst (join_room (js ''sB'') ?jd' (env_at 1000) ?st)"
    by (simp add: two_users_def join_ev_def)
  have r: "run [(Connect (js ''sA''), env_at 0), (Connect (js ''sB''), env_at 0),
                (join_ev ''sA'' ''r1'' ''Alice'', env_at 0)] init_state = ?st"
    by (simp add: join_ev_def)
  from a d join_room_creates_once [of ?c ?jd "js ''sA''" "env_at 0"]
  have 1: "dom (rooms ?st) = {js ''r1''}"
    and "\<exists>room. rooms ?st (js ''r1'') = Some room \<and>
      document room = \<lparr>content = welcome_text, language = js ''javascript''\<rparr>"
    by auto
  then obtain room where "rooms ?st (js ''r1'') = Some room"
      "document room = \<lparr>content = welcome_text, language = js ''javascript''\<rparr>"
    by blast
  with join_room_creates_once [of ?st ?jd' "js ''sB''" "env_at 1000"]
  have "\<exists>room. rooms two_users (js ''r1'') = Some room \<and>
      document room = \<lparr>content = welcome_text, language = js ''javascript''\<rparr>"
    unfolding t by auto
  with a 1 show ?thesis
    unfolding r by simp
qed

subsection \<open>The cleanup timer\<close>

text \<open>
  What the oldest pending cleanup does: nothing before its hour has passed; when it
  fires, a room disappears from the directory only if it is the timer's room and is at
  that moment present with zero users, and the timer's room is kept when it has users at
  that moment.
\<close>

lemma cleanup_at_fire_time:
  assumes "timers st = (due, rid) # rest"
  shows "(clock e < due \<longrightarrow> fst (timer_fire e st) = st) \<and>
         (due \<le> clock e \<longrightarrow>
            (\<forall>r. rooms st r \<noteq> None \<and> rooms (fst (timer_fire e st)) r = None \<longrightarrow>
               r = rid \<and> (\<exists>room. rooms st rid = Some room \<and> length (users room) = 0)) \<and>
            (\<forall>room. rooms st rid = Some room \<and> length (users room) \<noteq> 0 \<longrightarrow>
               rooms (fst (timer_fire e st)) rid = Some room) \<and>
            (\<forall>room. rooms st rid = Some room \<and> length (users room) = 0 \<longrightarrow>
               rooms (fst (timer_fire e st)) rid = None))"
  using assms by (auto simp: timer_fire_def cleanup_def split: option.splits if_splits)

text \<open>
  C4, the code at the failing input, the run \<open>rejoin_run\<close>: Alice's disconnect at 1 s
  queues the cleanup of room \<open>r1\<close> for 3601 s. Bob's join makes the user count nonzero
  before that timeout fires; he types and leaves at 3600.5 s, which queues a second
  cleanup. The first timeout is never cancelled: at 3601 s it finds the room empty and
  removes it, with Bob's text, half a second after it became empty.
\<close>

theorem stale_cleanup_removes_rejoined_room:
  "timers (run (take 3 rejoin_run) init_state) = [(3601000, js ''r1'')] \<and>
   room_members (run (take 5 rejoin_run) init_state) (js ''r1'') = {js ''sB''} \<and>
   map_option (content \<circ> document) (rooms (run rejoin_run init_state) (js ''r1'')) =
     Some (js ''WORK'' @ welcome_text) \<and>
   map_option lastActivity (rooms (run rejoin_run init_state) (js ''r1'')) = Some 3600500 \<and>
   timers (run rejoin_run init_state) = [(3601000, js ''r1''), (7200500, js ''r1'')] \<and>
   rooms (run (rejoin_run @ [(CleanupTimeout, env_at 3601000)]) init_state) (js ''r1'') = None"
  by (simp add: rejoin_run_def handler_defs Let_def js_def room_members_def
      new_DocumentOperation_def apply_operation_def slice_def slice_from_def welcome_text_def)

subsection \<open>Leaving a room by joining another\<close>

lemma join_room_timers: "timers (fst (join_room sid jd e st)) = timers st"
  by (simp add: join_room_state Let_def leave_previous_def socket_leave_def split: option.splits)

lemma disconnect_schedules:
  assumes "userSessions st sid = Some s" and "rooms st (roomId s) = Some room"
  shows "timers (fst (disconnect sid e st)) =
           (if length (AList.delete sid (users room)) = 0
            then timers st @ [(clock e + 3600000, roomId s)] else timers st)"
  using assms by (simp add: disconnect_def socket_leave_all_def Let_def case_prod_beta)

text \<open>
  C5, the code at the failing input: Alice, alone in room \<open>r1\<close>, joins room \<open>r2\<close>. Room
  \<open>r1\<close> stays in the directory with no users and no cleanup is pending, where her
  disconnect from the same state queues the cleanup of \<open>r1\<close>.
\<close>

theorem room_switch_schedules_no_cleanup:
  "room_members alone (js ''r1'') = {js ''sA''} \<and>
   rooms (fst (step (join_ev ''sA'' ''r2'' ''Alice'') (env_at 1000) alone)) (js ''r1'') \<noteq> None \<and>
   room_members (fst (step (join_ev ''sA'' ''r2'' ''Alice'') (env_at 1000) alone)) (js ''r1'') = {} \<and>
   timers (fst (step (join_ev ''sA'' ''r2'' ''Alice'') (env_at 1000) alone)) = [] \<and>
   timers (fst (step (Disconnect (js ''sA'')) (env_at 1000) alone)) = [(3601000, js ''r1'')]"
  by (simp add: alone_def handler_defs Let_def js_def room_members_def)

subsection \<open>The time of the last activity\<close>

lemma cursor_position_lastActivity:
  "map_option lastActivity (rooms (fst (cursor_position sid cur st)) r) =
     map_option lastActivity (rooms st r)"
  by (simp add: cursor_position_def Let_def split: option.splits)

lemma siblings_lastActivity:
  assumes "userSessions st sid = Some s" and "rooms st (roomId s) = Some room"
  shows "map_option lastActivity (rooms (fst (document_operation sid data e st)) (roomId s)) =
           Some (clock e)"
    and "map_option lastActivity (rooms (fst (language_change sid lang e st)) (roomId s)) =
           Some (clock e)"
    and "map_option lastActivity (rooms (fst (chat_message_ev sid msg e st)) (roomId s)) =
           Some (clock e)"
  using assms
  by (simp_all add: document_operation_def language_change_def chat_message_ev_def Let_def)

text \<open>
  C6, the code at the failing input: Alice joined room \<open>r1\<close> at time 0. Her cursor move
  at time 5000 changes her entry in the room's users and leaves \<open>lastActivity\<close> at 0,
  where her language change at that time sets it to 5000.
\<close>

theorem cursor_position_keeps_lastActivity:
  "map_option lastActivity (rooms alone (js ''r1'')) = Some 0 \<and>
   map_option lastActivity
     (rooms (fst (step (CursorPositionEv (js ''sA'') \<lparr>line = 3, column = 4\<rparr>) (env_at 5000) alone))
        (js ''r1'')) = Some 0 \<and>
   map_option (map_of \<circ> users)
     (rooms (fst (step (CursorPositionEv (js ''sA'') \<lparr>line = 3, column = 4\<rparr>) (env_at 5000) alone))
        (js ''r1'')) \<noteq> map_option (map_of \<circ> users) (rooms alone (js ''r1'')) \<and>
   map_option lastActivity
     (rooms (fst (step (LanguageChangeEv (js ''sA'') (js ''python'')) (env_at 5000) alone))
        (js ''r1'')) = Some 5000"
  by (simp add: alone_def handler_defs Let_def js_def fun_eq_iff)

subsection \<open>Messages without a session or a room\<close>

text \<open>
  C8: when the connection has no session, or its session names a room that is not in the
  directory, a document-operation, cursor-position, language-change or chat-message
  message changes nothing in the state and emits nothing, to the sender or to anyone.
\<close>

theorem no_session_ignored:
  assumes "userSessions st sid = None \<or>
           (\<exists>s. userSessions st sid = Some s \<and> rooms st (roomId s) = None)"
  shows "document_operation sid data e st = (st, []) \<and>
         cursor_position sid cur st = (st, []) \<and>
         language_change sid lang e st = (st, []) \<and>
         chat_message_ev sid msg e st = (st, [])"
  using assms
  by (auto simp: document_operation_def cursor_position_def language_change_def
      chat_message_ev_def)

text \<open>C8, an instance: messages from Bob's connection, which has not joined.\<close>

theorem no_session_ignored_witness:
  "userSessions alone (js ''sB'') = None \<and>
   document_operation (js ''sB'')
     \<lparr>d_type = js ''insert'', d_position = 0, d_content = js ''x'', d_length = None\<rparr>
     (env_at 1000) alone = (alone, []) \<and>
   cursor_position (js ''sB'') \<lparr>line = 1, column = 1\<rparr> alone = (alone, []) \<and>
   language_change (js ''sB'') (js ''python'') (env_at 1000) alone = (alone, []) \<and>
   chat_message_ev (js ''sB'') (js ''hi'') (env_at 1000) alone = (alone, [])"
proof -
  have n: "userSessions alone (js ''sB'') = None"
    by (simp add: alone_def join_ev_def join_room_sessions init_state_def connection_def js_def)
  show ?thesis
    using n no_session_ignored [of alone "js ''sB''"
        "\<lparr>d_type = js ''insert'', d_position = 0, d_content = js ''x'', d_length = None\<rparr>"
        "env_at 1000" "\<lparr>line = 1, column = 1\<rparr>" "js ''python''" "js ''hi''"]
    by simp
qed

subsection \<open>The display color\<close>

lemma show_nat_nonempty: "show_nat n \<noteq> []"
  by (subst show_nat.simps) simp

lemma digit_inject:
  assumes "a < 10" and "b < 10"
  shows "(of_nat (48 + a) :: 16 word) = of_nat (48 + b) \<longleftrightarrow> a = b"
proof -
  have "(of_nat (48 + a) :: 16 word) = of_nat (48 + b) \<longleftrightarrow>
          take_bit LENGTH(16) (48 + a) = take_bit LENGTH(16) (48 + b)"
    by (rule word_of_nat_eq_iff)
  moreover have "take_bit LENGTH(16) (48 + a) = 48 + a" and "take_bit LENGTH(16) (48 + b) = 48 + b"
    using assms by (simp_all add: take_bit_nat_eq_self)
  ultimately show ?thesis
    by simp
qed

lemma show_nat_inject: "show_nat n = show_nat m \<Longrightarrow> n = m"
proof (induction n arbitrary: m rule: show_nat.induct)
  case (1 n)
  show ?case
  proof (cases "n < 10")
    case True
    show ?thesis
    proof (cases "m < 10")
      case m: True
      from "1.prems" True m have "(of_nat (48 + n) :: 16 word) = of_nat (48 + m)"
        by (simp add: show_nat.simps [of n] show_nat.simps [of m] del: of_nat_add)
      with True m show ?thesis
        by (simp only: digit_inject)
    next
      case False
      with "1.prems" True show ?thesis
        using show_nat_nonempty [of "m div 10"]
        by (simp add: show_nat.simps [of n] show_nat.simps [of m])
    qed
  next
    case False
    show ?thesis
    proof (cases "m < 10")
      case True
      with "1.prems" False show ?thesis
        using show_nat_nonempty [of "n div 10"]
        by (simp add: show_nat.simps [of n] show_nat.simps [of m])
    next
      case m: False
      from "1.prems" False m
      have eq: "show_nat (n div 10) = show_nat (m div 10)"
        and d: "(of_nat (48 + n mod 10) :: 16 word) = of_nat (48 + m mod 10)"
        by (simp_all add: show_nat.simps [of n] show_nat.simps [of m] del: of_nat_add)
      from "1.IH" [OF False eq] have "n div 10 = m div 10" .
      moreover from d have "n mod 10 = m mod 10"
        by (simp add: digit_inject del: of_nat_add)
      ultimately show ?thesis
        by (metis div_mult_mod_eq)
    qed
  qed
qed

lemma join_session_color:
  "session_color (fst (join_room sid jd e st)) sid =
     Some (js ''hsl('' @ show_nat (random360 e) @ js '', 70%, 60%)'')"
  by (simp add: session_color_def join_room_sessions new_user_def)

lemma step_session_color:
  assumes "ev \<noteq> Disconnect sid" and "\<forall>d. ev \<noteq> JoinRoom sid d"
  shows "session_color (fst (step ev e st)) sid = session_color st sid"
proof (cases ev)
  case (Connect x)
  then show ?thesis
    by (simp add: session_color_def connection_def)
next
  case (JoinRoom x d)
  with assms(2) have "x \<noteq> sid" by auto
  with JoinRoom show ?thesis
    by (simp add: session_color_def join_room_sessions)
next
  case (DocumentOperationEv x d)
  then show ?thesis
    by (simp add: session_color_def document_operation_def Let_def split: option.splits)
next
  case (CursorPositionEv x c)
  then show ?thesis
    by (simp add: session_color_def cursor_position_def Let_def split: option.splits)
next
  case (LanguageChangeEv x l)
  then show ?thesis
    by (simp add: session_color_def language_change_def Let_def split: option.splits)
next
  case (ChatMessageEv x m)
  then show ?thesis
    by (simp add: session_color_def chat_message_ev_def Let_def split: option.splits)
next
  case (Disconnect x)
  with assms(1) have "x \<noteq> sid" by auto
  with Disconnect show ?thesis
    by (simp add: session_color_def disconnect_sessions)
next
  case CleanupTimeout
  then show ?thesis
    by (simp add: session_color_def timer_fire_def cleanup_def split: list.splits option.splits)
qed

text \<open>
  C9, as the code has it: the color a join assigns is \<open>hsl(h, 70%, 60%)\<close> for the number
  \<open>h\<close> drawn at random in that join, whatever the state and the payload, so that two
  joins assign the same color exactly when they draw the same number; and no event other
  than a join-room or disconnect of the same connection changes the color of its
  session.
\<close>

theorem color_from_join_draw:
  "session_color (fst (join_room sid jd e st)) sid =
     Some (js ''hsl('' @ show_nat (random360 e) @ js '', 70%, 60%)'') \<and>
   (session_color (fst (join_room sid jd e st)) sid =
      session_color (fst (join_room sid' jd' e' st')) sid' \<longleftrightarrow>
    random360 e = random360 e') \<and>
   (\<forall>ev e'. ev \<noteq> Disconnect sid \<and> (\<forall>d. ev \<noteq> JoinRoom sid d) \<longrightarrow>
      session_color (fst (step ev e' st)) sid = session_color st sid)"
proof (intro conjI)
  show "session_color (fst (join_room sid jd e st)) sid =
     Some (js ''hsl('' @ show_nat (random360 e) @ js '', 70%, 60%)'')"
    by (rule join_session_color)
  show "session_color (fst (join_room sid jd e st)) sid =
      session_color (fst (join_room sid' jd' e' st')) sid' \<longleftrightarrow>
    random360 e = random360 e'"
    by (auto simp: join_session_color dest: show_nat_inject)
  show "\<forall>ev e'. ev \<noteq> Disconnect sid \<and> (\<forall>d. ev \<noteq> JoinRoom sid d) \<longrightarrow>
      session_color (fst (step ev e' st)) sid = session_color st sid"
    by (simp add: step_session_color)
qed

text \<open>
  C9, an instance: Alice's join with the draw 120 gives her \<open>hsl(120, 70%, 60%)\<close>, and
  her cursor move keeps it.
\<close>

theorem color_from_join_draw_witness:
  "session_color alone (js ''sA'') = Some (js ''hsl(120, 70%, 60%)'') \<and>
   session_color
     (fst (step (CursorPositionEv (js ''sA'') \<lparr>line = 3, column = 4\<rparr>) (env_at 5000) alone))
     (js ''sA'') = Some (js ''hsl(120, 70%, 60%)'')"
proof -
  let ?c = "fst (connection (js ''sA'') init_state)"
  have a: "alone = fst (join_room (js ''sA'') \<lparr>j_roomId = js ''r1'', j_userName = js ''Alice''\<rparr>
      (env_at 0) ?c)"
    by (simp add: alone_def join_ev_def)
  have s: "show_nat 120 = js ''120''"
    by (simp add: show_nat.simps js_def)
  have c: "session_color alone (js ''sA'') = Some (js ''hsl(120, 70%, 60%)'')"
    unfolding a
    using color_from_join_draw [of "js ''sA''" "\<lparr>j_roomId = js ''r1'', j_userName = js ''Alice''\<rparr>"
        "env_at 0" ?c]
    by (simp add: env_at_def s js_def)
  have "session_color
     (fst (step (CursorPositionEv (js ''sA'') \<lparr>line = 3, column = 4\<rparr>) (env_at 5000) alone))
     (js ''sA'') = session_color alone (js ''sA'')"
    by (rule color_from_join_draw [THEN conjunct2, THEN conjunct2, rule_format]) simp
  with c show ?thesis
    by simp
qed

text \<open>
  C9 as stated fails: two runs of the same join, from the same state and with the same
  payload, assign different colors when the random draws differ.
\<close>

theorem color_differs_between_joins_counterexample:
  "session_color
     (fst (join_room (js ''sA'') \<lparr>j_roomId = js ''r1'', j_userName = js ''Alice''\<rparr>
        \<lparr>clock = 0, uuidv4 = js ''id'', random1000 = 7, random360 = 120\<rparr> init_state))
     (js ''sA'') \<noteq>
   session_color
     (fst (join_room (js ''sA'') \<lparr>j_roomId = js ''r1'', j_userName = js ''Alice''\<rparr>
        \<lparr>clock = 0, uuidv4 = js ''id'', random1000 = 7, random360 = 240\<rparr> init_state))
     (js ''sA'')"
  by (simp add: session_color_def join_room_sessions new_user_def show_nat.simps js_def)

end
